theory Spec2Isabelle
  imports Complex_Main
begin

section \<open>Colorspace thresholding (cspaceThreshImg.py)\<close>

text \<open>
  The module has three private helpers and one public function:
  \<^item> \<open>__cspaceSwitch(img, cspace)\<close> converts a BGR image to the colorspace \<open>cspace\<close>;
  \<^item> \<open>__cspaceBounds(cspace, slider_pos)\<close> scales six slider positions to channel bounds;
  \<^item> \<open>__cspaceRange(img, cspace, lowerb, upperb)\<close> converts and thresholds the image;
  \<^item> \<open>main(img, cspace_label, slider_pos)\<close> resolves the label and calls the helpers.

  Conventions of the embedding.
  \<^item> A colorspace key and a slider position are Python integers: \<open>int\<close>. The tests
    \<open>cspace is 0\<close> and \<open>cspace is 7\<close> compare identities; CPython keeps one object for
    each small integer, so on integers they are the equalities \<open>cspace = 0\<close> and
    \<open>cspace = 7\<close>.
  \<^item> The arithmetic of line 72/73 is numpy's elementwise arithmetic on arrays of three
    numbers, with \<open>/\<close> the true division of Python 3. It is modelled exactly: products
    and differences of integers in \<open>int\<close>, and the quotient and the final sum in \<open>rat\<close>.
    The rounding of binary floating point and the fixed width of numpy's integers are
    not part of the model.
  \<^item> A value of numpy is either a one-dimensional array or a scalar (what indexing an
    array with \<open>[0]\<close> gives): the datatype \<open>ndarray\<close>.
  \<^item> Every \<open>raise\<close> is a value \<open>Inl e\<close> of the result type \<open>error + 'a\<close>.
  \<^item> \<open>cv2.cvtColor\<close> and \<open>cv2.inRange\<close> belong to OpenCV, not to this module: they are
    parameters of the functions that call them, and they may fail with a message.
\<close>

subsection \<open>Values and errors\<close>

datatype key = StrKey string | IntKey int

text \<open>
  \<open>KeyError k\<close>: a dictionary was subscripted with the absent key \<open>k\<close>
  (line 135 with a label, line 39 with a colorspace key).
  \<open>IndexError\<close>: \<open>slider_pos[i]\<close> with \<open>i\<close> beyond the end of the list.
  \<open>Cv2Error m\<close>: an OpenCV call failed with message \<open>m\<close>.
\<close>

datatype error = KeyError key | IndexError | Cv2Error string

datatype ndarray = Scalar rat | Array "rat list"

text \<open>What \<open>.tolist()\<close> returns: a Python list for an array, a Python float for a scalar.\<close>

datatype pyvalue = PyFloat rat | PyList "rat list"

fun tolist :: "ndarray \<Rightarrow> pyvalue" where
  "tolist (Scalar x) = PyFloat x"
| "tolist (Array xs) = PyList xs"




text \<open>The conversion codes of OpenCV that line 32 to 38 name.\<close>

datatype convert_code =
  COLOR_BGR2HSV | COLOR_BGR2HLS | COLOR_BGR2Lab | COLOR_BGR2Luv
  | COLOR_BGR2YCrCb | COLOR_BGR2XYZ | COLOR_BGR2GRAY

subsection \<open>Python primitives\<close>

text \<open>\<open>d[k]\<close> on a dictionary raises \<open>KeyError\<close> for an absent key; \<open>d.get(k, v)\<close> gives \<open>v\<close>.\<close>

definition dict_getitem :: "('k \<rightharpoonup> 'v) \<Rightarrow> ('k \<Rightarrow> key) \<Rightarrow> 'k \<Rightarrow> error + 'v" where
  "dict_getitem d mk k = (case d k of None \<Rightarrow> Inl (KeyError (mk k)) | Some v \<Rightarrow> Inr v)"

definition dict_get :: "('k \<rightharpoonup> 'v) \<Rightarrow> 'k \<Rightarrow> 'v \<Rightarrow> 'v" where
  "dict_get d k v = (case d k of None \<Rightarrow> v | Some w \<Rightarrow> w)"

text \<open>\<open>xs[i]\<close> on a list with a constant index \<open>i \<ge> 0\<close>.\<close>

definition list_getitem :: "'a list \<Rightarrow> nat \<Rightarrow> error + 'a" where
  "list_getitem xs i = (if i < length xs then Inr (xs ! i) else Inl IndexError)"

text \<open>\<open>np.array([xs[i], xs[j], ...])\<close>: the subscripts are evaluated from left to right.\<close>

fun np_array_of :: "'a list \<Rightarrow> nat list \<Rightarrow> error + 'a list" where
  "np_array_of xs [] = Inr []"
| "np_array_of xs (i # js) =
     (case list_getitem xs i of
        Inl e \<Rightarrow> Inl e
      | Inr v \<Rightarrow> (case np_array_of xs js of Inl e \<Rightarrow> Inl e | Inr vs \<Rightarrow> Inr (v # vs)))"

text \<open>\<open>raw * (maxs - mins) / 100 + mins\<close>, elementwise on arrays of equal length.\<close>

definition scale :: "int list \<Rightarrow> int list \<Rightarrow> int list \<Rightarrow> rat list" where
  "scale raw mins maxs =
     map2 (\<lambda>q m. q + of_int m)
       (map (\<lambda>p. of_int p / 100) (map2 (*) raw (map2 (-) maxs mins)))
       mins"

subsection \<open>The functions of the module\<close>

text \<open>
  \<open>__cspaceSwitch\<close>, lines 8 to 42: key 0 returns the image as it is; any other key is
  looked up in the dictionary of conversion codes (a \<open>KeyError\<close> when absent) and the
  image is handed to \<open>cv2.cvtColor\<close>.
\<close>

definition convert_code_dict :: "int \<rightharpoonup> convert_code" where
  "convert_code_dict =
     [1 \<mapsto> COLOR_BGR2HSV, 2 \<mapsto> COLOR_BGR2HLS, 3 \<mapsto> COLOR_BGR2Lab, 4 \<mapsto> COLOR_BGR2Luv,
      5 \<mapsto> COLOR_BGR2YCrCb, 6 \<mapsto> COLOR_BGR2XYZ, 7 \<mapsto> COLOR_BGR2GRAY]"

definition cspaceSwitch ::
  "('img \<Rightarrow> convert_code \<Rightarrow> string + 'img) \<Rightarrow> 'img \<Rightarrow> int \<Rightarrow> error + 'img" where
  "cspaceSwitch cvtColor img cspace =
     (if cspace = 0 then Inr img
      else
        (case dict_getitem convert_code_dict IntKey cspace of
           Inl e \<Rightarrow> Inl e
         | Inr code \<Rightarrow>
             (case cvtColor img code of Inl m \<Rightarrow> Inl (Cv2Error m) | Inr img' \<Rightarrow> Inr img')))"

text \<open>
  \<open>__cspaceBounds\<close>, lines 45 to 77: the ranges come from \<open>dict.get\<close> with a default
  (lines 64 to 68), the raw bounds from the slider positions (lines 70 and 71), the
  scaling is line 72 and 73, and line 75 keeps element \<open>[0]\<close> of each bound for key 7.
\<close>

definition min_dict :: "int \<rightharpoonup> int list" where
  "min_dict = [3 \<mapsto> [0, 1, 1]]"

definition max_dict :: "int \<rightharpoonup> int list" where
  "max_dict = [1 \<mapsto> [180, 255, 255], 2 \<mapsto> [180, 255, 255]]"

definition cspaceBounds :: "int \<Rightarrow> int list \<Rightarrow> error + (ndarray \<times> ndarray)" where
  "cspaceBounds cspace slider_pos =
     (let mins = dict_get min_dict cspace [0, 0, 0];
          maxs = dict_get max_dict cspace [255, 255, 255]
      in
        (case np_array_of slider_pos [0, 2, 4] of
           Inl e \<Rightarrow> Inl e
         | Inr lowerb_raw \<Rightarrow>
             (case np_array_of slider_pos [1, 3, 5] of
                Inl e \<Rightarrow> Inl e
              | Inr upperb_raw \<Rightarrow>
                  (let lowerb = scale lowerb_raw mins maxs;
                       upperb = scale upperb_raw mins maxs
                   in
                     if cspace = 7 then Inr (Scalar (lowerb ! 0), Scalar (upperb ! 0))
                     else Inr (Array lowerb, Array upperb)))))"

text \<open>\<open>__cspaceRange\<close>, lines 80 to 99: convert, then \<open>cv2.inRange\<close>.\<close>

definition cspaceRange ::
  "('img \<Rightarrow> convert_code \<Rightarrow> string + 'img) \<Rightarrow> ('img \<Rightarrow> ndarray \<Rightarrow> ndarray \<Rightarrow> string + 'mask) \<Rightarrow>
   'img \<Rightarrow> int \<Rightarrow> ndarray \<Rightarrow> ndarray \<Rightarrow> error + 'mask" where
  "cspaceRange cvtColor inRange img cspace lowerb upperb =
     (case cspaceSwitch cvtColor img cspace of
        Inl e \<Rightarrow> Inl e
      | Inr img' \<Rightarrow>
          (case inRange img' lowerb upperb of
             Inl m \<Rightarrow> Inl (Cv2Error m)
           | Inr bin_img \<Rightarrow> Inr bin_img))"

text \<open>
  \<open>main\<close>, lines 105 to 145: the label is looked up first (line 135, a \<open>KeyError\<close> when
  absent), then the bounds, then the mask; the bounds are returned through \<open>.tolist()\<close>.
\<close>

definition cspace_dict :: "string \<rightharpoonup> int" where
  "cspace_dict =
     [''BGR'' \<mapsto> 0, ''HSV'' \<mapsto> 1, ''HLS'' \<mapsto> 2, ''Lab'' \<mapsto> 3,
      ''Luv'' \<mapsto> 4, ''YCrCb'' \<mapsto> 5, ''XYZ'' \<mapsto> 6, ''Gray'' \<mapsto> 7]"

definition main ::
  "('img \<Rightarrow> convert_code \<Rightarrow> string + 'img) \<Rightarrow> ('img \<Rightarrow> ndarray \<Rightarrow> ndarray \<Rightarrow> string + 'mask) \<Rightarrow>
   'img \<Rightarrow> string \<Rightarrow> int list \<Rightarrow> error + ('mask \<times> string \<times> pyvalue \<times> pyvalue)" where
  "main cvtColor inRange img cspace_label slider_pos =
     (case dict_getitem cspace_dict StrKey cspace_label of
        Inl e \<Rightarrow> Inl e
      | Inr cspace \<Rightarrow>
          (case cspaceBounds cspace slider_pos of
             Inl e \<Rightarrow> Inl e
           | Inr (lowerb, upperb) \<Rightarrow>
               (case cspaceRange cvtColor inRange img cspace lowerb upperb of
                  Inl e \<Rightarrow> Inl e
                | Inr bin_img \<Rightarrow> Inr (bin_img, cspace_label, tolist lowerb, tolist upperb))))"

subsection \<open>The specification's table and formula\<close>



definition spec_bound :: "int \<Rightarrow> int \<Rightarrow> int \<Rightarrow> rat" where
  "spec_bound raw mn mx = of_int raw * (of_int mx - of_int mn) / 100 + of_int mn"

subsection \<open>Observations on results\<close>




text \<open>
  Two OpenCV calls that succeed, for running \<open>main\<close> on concrete inputs: the conversion
  and the range test hand back the image they were given.
\<close>

definition cvtColor_ok :: "'img \<Rightarrow> convert_code \<Rightarrow> string + 'img" where
  "cvtColor_ok img code = Inr img"

definition inRange_ok :: "'img \<Rightarrow> ndarray \<Rightarrow> ndarray \<Rightarrow> string + 'img" where
  "inRange_ok img lowerb upperb = Inr img"

section \<open>Auxiliary facts\<close>

subsection \<open>The lookups and the array arithmetic\<close>

lemma dict_get_min:
  "dict_get min_dict cspace [0, 0, 0] = (if cspace = 3 then [0, 1, 1] else [0, 0, 0])"
  by (simp add: dict_get_def min_dict_def)

lemma dict_get_max:
  "dict_get max_dict cspace [255, 255, 255] =
     (if cspace = 1 \<or> cspace = 2 then [180, 255, 255] else [255, 255, 255])"
  by (simp add: dict_get_def max_dict_def)

lemma np_array_of_low:
  "length xs = 6 \<Longrightarrow> np_array_of xs [0, 2, 4] = Inr [xs ! 0, xs ! 2, xs ! 4]"
  by (simp add: list_getitem_def)

lemma np_array_of_high:
  "length xs = 6 \<Longrightarrow> np_array_of xs [1, 3, 5] = Inr [xs ! 1, xs ! 3, xs ! 5]"
  by (simp add: list_getitem_def)

text \<open>The code's elementwise arithmetic computes the specification's formula per channel.\<close>

lemma scale3:
  "scale [a, b, c] [m0, m1, m2] [M0, M1, M2] =
     [spec_bound a m0 M0, spec_bound b m1 M1, spec_bound c m2 M2]"
  by (simp add: scale_def spec_bound_def)

lemma cspaceBounds_six:
  assumes "length slider_pos = 6"
  shows "cspaceBounds cspace slider_pos =
     (let mins = (if cspace = 3 then [0, 1, 1] else [0, 0, 0]);
          maxs = (if cspace = 1 \<or> cspace = 2 then [180, 255, 255] else [255, 255, 255]);
          lowerb = scale [slider_pos ! 0, slider_pos ! 2, slider_pos ! 4] mins maxs;
          upperb = scale [slider_pos ! 1, slider_pos ! 3, slider_pos ! 5] mins maxs
      in if cspace = 7 then Inr (Scalar (lowerb ! 0), Scalar (upperb ! 0))
         else Inr (Array lowerb, Array upperb))"
  unfolding cspaceBounds_def dict_get_min dict_get_max
    np_array_of_low [OF assms] np_array_of_high [OF assms]
  by (simp add: Let_def)




lemma cspaceBounds_no_KeyError: "cspaceBounds cspace slider_pos \<noteq> Inl (KeyError k)"
  by (auto simp: cspaceBounds_def Let_def list_getitem_def split: sum.splits if_splits)

subsection \<open>The formula is affine in the slider position\<close>





subsection \<open>The two dictionaries of keys\<close>

lemma cspace_dict_None:
  "cspace_label \<notin> {''BGR'', ''HSV'', ''HLS'', ''Lab'', ''Luv'', ''YCrCb'', ''XYZ'', ''Gray''}
   \<Longrightarrow> cspace_dict cspace_label = None"
  by (simp add: cspace_dict_def)

lemma cspace_dict_Some:
  "cspace_label \<in> {''BGR'', ''HSV'', ''HLS'', ''Lab'', ''Luv'', ''YCrCb'', ''XYZ'', ''Gray''}
   \<Longrightarrow> \<exists>cspace. cspace_dict cspace_label = Some cspace \<and> cspace \<in> {0..7}"
  by (auto simp: cspace_dict_def)


lemma insert8_rev: "{h, g, f, e, d, c, b, a} = {a, b, c, d, e, f, g, h}"
  by blast

lemma dom_cspace_dict_rev:
  "dom cspace_dict = {''Gray'', ''XYZ'', ''YCrCb'', ''Luv'', ''Lab'', ''HLS'', ''HSV'', ''BGR''}"
  unfolding cspace_dict_def by (simp only: dom_fun_upd dom_empty option.simps if_False)

lemma convert_code_dict_Some:
  assumes "cspace \<in> {1..7}"
  shows "\<exists>code. convert_code_dict cspace = Some code"
proof -
  from assms have "cspace = 1 \<or> cspace = 2 \<or> cspace = 3 \<or> cspace = 4 \<or> cspace = 5
      \<or> cspace = 6 \<or> cspace = 7"
    by auto
  then show ?thesis by (auto simp: convert_code_dict_def)
qed


lemma cspaceSwitch_no_KeyError:
  assumes "cspace \<in> {0..7}"
  shows "cspaceSwitch cvtColor img cspace \<noteq> Inl (KeyError k)"
proof (cases "cspace = 0")
  case True
  then show ?thesis by (simp add: cspaceSwitch_def)
next
  case False
  with assms have "cspace \<in> {1..7}" by auto
  then obtain code where "convert_code_dict cspace = Some code"
    using convert_code_dict_Some by blast
  then show ?thesis
    using False by (simp add: cspaceSwitch_def dict_getitem_def split: sum.splits)
qed

subsection \<open>The label lookup of the entry point\<close>

lemma main_unknown_label:
  assumes "cspace_label \<notin> {''BGR'', ''HSV'', ''HLS'', ''Lab'', ''Luv'', ''YCrCb'', ''XYZ'', ''Gray''}"
  shows "main cvtColor inRange img cspace_label slider_pos = Inl (KeyError (StrKey cspace_label))"
  by (simp add: main_def dict_getitem_def cspace_dict_None [OF assms])

lemma main_known_label:
  assumes "cspace_label \<in> {''BGR'', ''HSV'', ''HLS'', ''Lab'', ''Luv'', ''YCrCb'', ''XYZ'', ''Gray''}"
  shows "main cvtColor inRange img cspace_label slider_pos \<noteq> Inl (KeyError k)"
proof -
  obtain cspace where c: "cspace_dict cspace_label = Some cspace" "cspace \<in> {0..7}"
    using cspace_dict_Some [OF assms] by blast
  show ?thesis
    using cspaceBounds_no_KeyError [of cspace slider_pos k]
      cspaceSwitch_no_KeyError [OF c(2), of cvtColor img k]
    by (auto simp: main_def dict_getitem_def c(1) cspaceRange_def split: sum.splits prod.splits)
qed

section \<open>The claims\<close>



text \<open>
  Claim C2. Whatever the image and the slider positions, \<open>main\<close> called with a label that is
  not a key of \<open>cspace_dict\<close> fails with the \<open>KeyError\<close> of that label and returns nothing:
  the lookup of line 135 comes before every other computation, so neither the slider
  positions nor the OpenCV calls are looked at. With a label that is a key, no \<open>KeyError\<close>
  is raised at all.
\<close>

theorem main_invalid_label:
  "(cspace_label \<notin> {''BGR'', ''HSV'', ''HLS'', ''Lab'', ''Luv'', ''YCrCb'', ''XYZ'', ''Gray''} \<longrightarrow>
      main cvtColor inRange img cspace_label slider_pos = Inl (KeyError (StrKey cspace_label)) \<and>
      (\<forall>r. main cvtColor inRange img cspace_label slider_pos \<noteq> Inr r)) \<and>
   (cspace_label \<in> {''BGR'', ''HSV'', ''HLS'', ''Lab'', ''Luv'', ''YCrCb'', ''XYZ'', ''Gray''} \<longrightarrow>
      (\<forall>k. main cvtColor inRange img cspace_label slider_pos \<noteq> Inl (KeyError k)))"
proof (intro conjI impI allI)
  assume a: "cspace_label \<notin> {''BGR'', ''HSV'', ''HLS'', ''Lab'', ''Luv'', ''YCrCb'', ''XYZ'', ''Gray''}"
  show e: "main cvtColor inRange img cspace_label slider_pos = Inl (KeyError (StrKey cspace_label))"
    using a by (rule main_unknown_label)
  show "main cvtColor inRange img cspace_label slider_pos \<noteq> Inr r" for r
    by (simp only: e sum.distinct not_False_eq_True)
next
  fix k
  assume "cspace_label \<in> {''BGR'', ''HSV'', ''HLS'', ''Lab'', ''Luv'', ''YCrCb'', ''XYZ'', ''Gray''}"
  then show "main cvtColor inRange img cspace_label slider_pos \<noteq> Inl (KeyError k)"
    by (rule main_known_label)
qed

theorem main_invalid_label_witness:
  "main cvtColor_ok inRange_ok () ''CMYK'' [0, 100, 0, 100, 0, 100]
     = Inl (KeyError (StrKey ''CMYK'')) \<and>
   main cvtColor_ok inRange_ok () ''CMYK'' [] = Inl (KeyError (StrKey ''CMYK'')) \<and>
   main cvtColor_ok inRange_ok () ''HSV'' [0, 100, 0, 100, 0, 100]
     = Inr ((), ''HSV'', PyList [0, 0, 0], PyList [180, 255, 255]) \<and>
   main cvtColor_ok inRange_ok () ''HSV'' [0, 100, 0, 100, 0, 100]
     \<noteq> Inl (KeyError (StrKey ''HSV''))"
  using main_invalid_label [of "''CMYK''" cvtColor_ok inRange_ok "()" "[0, 100, 0, 100, 0, 100]"]
    main_invalid_label [of "''CMYK''" cvtColor_ok inRange_ok "()" "[]"]
    main_invalid_label [of "''HSV''" cvtColor_ok inRange_ok "()" "[0, 100, 0, 100, 0, 100]"]
  by (simp add: main_def dict_getitem_def cspace_dict_def cspaceBounds_six scale3 spec_bound_def
      cspaceRange_def cspaceSwitch_def convert_code_dict_def cvtColor_ok_def inRange_ok_def)







text \<open>
  Claim C5. Converting to BGR (key 0) is the identity: \<open>__cspaceSwitch\<close> returns the image
  it was given, and does so whatever \<open>cv2.cvtColor\<close> would do, since it is not called.
\<close>

theorem bgr_identity: "cspaceSwitch cvtColor img 0 = Inr img"
  by (simp add: cspaceSwitch_def)





text \<open>
  Claim C8. For Grayscale (key 7) and the slider positions \<open>[0,50,0,0,0,0]\<close> the lower
  bound is the single value 0 and the upper bound the single value 127.5, which is
  \<open>50 * 255 / 100\<close> without truncation.
\<close>

theorem gray_example:
  "cspaceBounds 7 [0, 50, 0, 0, 0, 0] = Inr (Scalar 0, Scalar 127.5) \<and>
   (127.5 :: rat) = 50 * 255 / 100"
  by (simp add: cspaceBounds_six scale3 spec_bound_def)

text \<open>
  Claim C9. The labels \<open>main\<close> accepts are exactly the eight keys of \<open>cspace_dict\<close>:
  \<open>BGR\<close>, \<open>HSV\<close>, \<open>HLS\<close>, \<open>Lab\<close>, \<open>Luv\<close>, \<open>YCrCb\<close>, \<open>XYZ\<close> and \<open>Gray\<close>. A call fails with the
  \<open>KeyError\<close> of its label exactly when the label is none of them; so the label
  \<open>Grayscale\<close> is refused.
\<close>

theorem accepted_labels:
  "(main cvtColor inRange img cspace_label slider_pos = Inl (KeyError (StrKey cspace_label)))
     = (cspace_label \<notin> {''BGR'', ''HSV'', ''HLS'', ''Lab'', ''Luv'', ''YCrCb'', ''XYZ'', ''Gray''}) \<and>
   dom cspace_dict = {''BGR'', ''HSV'', ''HLS'', ''Lab'', ''Luv'', ''YCrCb'', ''XYZ'', ''Gray''} \<and>
   main cvtColor inRange img ''Grayscale'' slider_pos = Inl (KeyError (StrKey ''Grayscale''))"
proof (intro conjI)
  show "(main cvtColor inRange img cspace_label slider_pos = Inl (KeyError (StrKey cspace_label)))
     = (cspace_label \<notin> {''BGR'', ''HSV'', ''HLS'', ''Lab'', ''Luv'', ''YCrCb'', ''XYZ'', ''Gray''})"
  proof
    assume eq: "main cvtColor inRange img cspace_label slider_pos
      = Inl (KeyError (StrKey cspace_label))"
    show "cspace_label \<notin> {''BGR'', ''HSV'', ''HLS'', ''Lab'', ''Luv'', ''YCrCb'', ''XYZ'', ''Gray''}"
    proof
      assume "cspace_label \<in> {''BGR'', ''HSV'', ''HLS'', ''Lab'', ''Luv'', ''YCrCb'', ''XYZ'', ''Gray''}"
      then have "main cvtColor inRange img cspace_label slider_pos
          \<noteq> Inl (KeyError (StrKey cspace_label))"
        by (rule main_known_label)
      then show False using eq by (rule notE)
    qed
  next
    assume "cspace_label \<notin> {''BGR'', ''HSV'', ''HLS'', ''Lab'', ''Luv'', ''YCrCb'', ''XYZ'', ''Gray''}"
    then show "main cvtColor inRange img cspace_label slider_pos
        = Inl (KeyError (StrKey cspace_label))"
      by (rule main_unknown_label)
  qed
  show "dom cspace_dict = {''BGR'', ''HSV'', ''HLS'', ''Lab'', ''Luv'', ''YCrCb'', ''XYZ'', ''Gray''}"
    unfolding dom_cspace_dict_rev by (rule insert8_rev)
  show "main cvtColor inRange img ''Grayscale'' slider_pos = Inl (KeyError (StrKey ''Grayscale''))"
    by (rule main_unknown_label) simp
qed



end
